theory Spec2Isabelle
  imports Main "HOL-Library.Char_ord" "HOL-Library.List_Lexorder"
    "HOL-Library.Product_Lexorder" "HOL-Library.Sublist"
begin

section \<open>The store: values, rows, tables\<close>

text \<open>
  The handler of \<^verbatim>\<open>mdb_handler.py\<close> talks to an SQLite file through one connection
  and one cursor. A stored value is NULL, an integer or a text; a row is the tuple
  that the cursor returns. Tables and columns are named in the source by Python
  strings that are spliced into the SQL text; here they are the identifiers of the
  schema of \<^verbatim>\<open>create_tables\<close>, together with \<^verbatim>\<open>rowid\<close> and the marker \<^verbatim>\<open>*\<close>.
  Values bound to a statement carry the storage class of the column they meet
  (text for VARCHAR, integer for INTEGER), as every caller passes them; the
  conversions that SQLite applies between storage classes are not part of the model.
  A text is a list of characters, each standing for the Unicode code point of its
  number, so that texts reach as far as Latin-1. SQLite stores integers in 64 bits,
  and Python raises \<^verbatim>\<open>OverflowError\<close> when a larger one is bound; binding is not
  modelled, and a theorem whose integers come from the caller says that they fit.
\<close>

datatype val = VNull | VInt int | VText string

type_synonym row = "val list"

datatype table_name = TMedia | TGenres | TMediaTypes

datatype column_name =
    ColId | ColTitle | ColDescription | ColAgeRating | ColGenre | ColSeason
  | ColDiscCount | ColMediaType | ColPlayTime | ColNotes | ColExamples | ColType
  | ColRowid | ColStar

datatype sql_type = INTEGER | VARCHAR

record coldef =
  col_name :: column_name
  col_type :: sql_type
  primary_key :: bool
  not_null :: bool

definition mk_col :: "column_name \<Rightarrow> sql_type \<Rightarrow> bool \<Rightarrow> bool \<Rightarrow> coldef" where
  "mk_col n t pk nn = \<lparr>col_name = n, col_type = t, primary_key = pk, not_null = nn\<rparr>"

text \<open>
  The column lists of the three CREATE TABLE statements of \<^verbatim>\<open>create_tables\<close>. Every
  other statement of the handler is written for tables of these columns.
\<close>

definition media_types_columns :: "coldef list" where
  "media_types_columns =
     [mk_col ColId INTEGER True True,
      mk_col ColType VARCHAR False False]"

definition genres_columns :: "coldef list" where
  "genres_columns =
     [mk_col ColId INTEGER True False,
      mk_col ColGenre VARCHAR False False,
      mk_col ColDescription VARCHAR False False,
      mk_col ColExamples VARCHAR False False]"

definition media_columns :: "coldef list" where
  "media_columns =
     [mk_col ColId INTEGER True False,
      mk_col ColTitle VARCHAR False True,
      mk_col ColDescription VARCHAR False False,
      mk_col ColAgeRating VARCHAR False False,
      mk_col ColGenre VARCHAR False False,
      mk_col ColSeason INTEGER False False,
      mk_col ColDiscCount INTEGER False False,
      mk_col ColMediaType VARCHAR False False,
      mk_col ColPlayTime INTEGER False False,
      mk_col ColNotes VARCHAR False False]"

fun schema_of :: "table_name \<Rightarrow> coldef list" where
  "schema_of TMediaTypes = media_types_columns"
| "schema_of TGenres = genres_columns"
| "schema_of TMedia = media_columns"

text \<open>
  A database holds, for each table that exists with these columns, its rows in
  storage order.
\<close>

type_synonym database = "table_name \<rightharpoonup> row list"

datatype error =
  OperationalError | IntegrityError | IndexError | TypeError | OverflowError

text \<open>
  Position of a column in a table. \<^verbatim>\<open>rowid\<close> is an alias of the INTEGER PRIMARY KEY
  column; \<^verbatim>\<open>*\<close> is no column.
\<close>

fun find_col :: "column_name \<Rightarrow> coldef list \<Rightarrow> nat option" where
  "find_col n [] = None"
| "find_col n (d # ds) =
     (if col_name d = n then Some 0 else map_option Suc (find_col n ds))"

fun find_pk :: "coldef list \<Rightarrow> nat option" where
  "find_pk [] = None"
| "find_pk (d # ds) =
     (if primary_key d \<and> col_type d = INTEGER then Some 0
      else map_option Suc (find_pk ds))"

definition col_index :: "table_name \<Rightarrow> column_name \<Rightarrow> nat option" where
  "col_index t n =
     (if n = ColStar then None
      else if n = ColRowid then find_pk (schema_of t)
      else find_col n (schema_of t))"

definition cell :: "row \<Rightarrow> nat \<Rightarrow> val" where
  "cell r i = (if i < length r then r ! i else VNull)"

text \<open>SQL equality: a comparison with NULL is never true.\<close>

definition sql_eq :: "val \<Rightarrow> val \<Rightarrow> bool" where
  "sql_eq a b = (a \<noteq> VNull \<and> b \<noteq> VNull \<and> a = b)"

section \<open>The statements the handler executes\<close>

fun row_ids :: "row list \<Rightarrow> int list" where
  "row_ids [] = []"
| "row_ids (r # rs) = (case cell r 0 of VInt i \<Rightarrow> i # row_ids rs | _ \<Rightarrow> row_ids rs)"



text \<open>
  A NULL key is replaced by one more than the largest key in use, 1 in an empty
  table. When the largest key of 64 bits is in use, the engine draws candidates
  at random, each between 1 and \<open>2 ^ 62\<close>, until one is not in use, and gives up
  after 100 of them (the table counts as full). \<open>draws\<close> lists the numbers that the
  random generator would yield; an exhausted list leaves the engine without a
  candidate. The second component counts the draws used up.
\<close>

definition max_rowid :: int where
  "max_rowid = 9223372036854775807"

fun random_rowid :: "int list \<Rightarrow> int list \<Rightarrow> int option \<times> nat" where
  "random_rowid used [] = (None, 0)"
| "random_rowid used (d # ds) =
     (let v = d mod 2 ^ 62 + 1 in
      if v \<in> set used
      then (case random_rowid used ds of (k, n) \<Rightarrow> (k, Suc n))
      else (Some v, 1))"

definition new_rowid :: "row list \<Rightarrow> int list \<Rightarrow> int option \<times> nat" where
  "new_rowid rs draws =
     (case row_ids rs of
        [] \<Rightarrow> (Some 1, 0)
      | i # js \<Rightarrow>
          (let m = fold max js i in
           if m < max_rowid then (Some (m + 1), 0)
           else random_rowid (row_ids rs) (take 100 draws)))"

definition violates_not_null :: "coldef list \<Rightarrow> row \<Rightarrow> bool" where
  "violates_not_null ds r =
     list_ex (\<lambda>(d, i). not_null d \<and> cell r i = VNull) (zip ds [0 ..< length ds])"

text \<open>
  \<^verbatim>\<open>INSERT INTO t VALUES (v0, v1, ...)\<close>, the first value being the key. The result
  comes with the number of random draws that the statement used up.
\<close>

definition sql_insert ::
  "table_name \<Rightarrow> row \<Rightarrow> int list \<Rightarrow> database \<Rightarrow> (error + database) \<times> nat" where
  "sql_insert t vs draws db =
     (case db t of
        None \<Rightarrow> (Inl OperationalError, 0)
      | Some rs \<Rightarrow>
          (if length vs \<noteq> length (schema_of t) then (Inl OperationalError, 0)
           else
             (case cell vs 0 of
                VText s \<Rightarrow> (Inl IntegrityError, 0)
              | VInt k \<Rightarrow>
                  (if k \<in> set (row_ids rs) \<or> violates_not_null (schema_of t) vs
                   then (Inl IntegrityError, 0)
                   else (Inr (db(t \<mapsto> rs @ [vs])), 0))
              | VNull \<Rightarrow>
                  (case new_rowid rs draws of
                     (None, n) \<Rightarrow> (Inl OperationalError, n)
                   | (Some k, n) \<Rightarrow>
                       (let r = VInt k # tl vs in
                        if violates_not_null (schema_of t) r then (Inl IntegrityError, n)
                        else (Inr (db(t \<mapsto> rs @ [r])), n))))))"

text \<open>
  \<^verbatim>\<open>UPDATE t SET c1 = v1, ... WHERE w = v\<close>. An unknown column is an error of the
  statement; NOT NULL is checked on the columns that are assigned, for the rows
  that are changed, and a violation aborts the statement.
\<close>

fun assign :: "table_name \<Rightarrow> (column_name \<times> val) list \<Rightarrow> row \<Rightarrow> row" where
  "assign t [] r = r"
| "assign t ((n, v) # sets) r =
     (case col_index t n of
        None \<Rightarrow> assign t sets r
      | Some i \<Rightarrow> assign t sets (r[i := v]))"

definition col_not_null :: "table_name \<Rightarrow> column_name \<Rightarrow> bool" where
  "col_not_null t n =
     (case col_index t n of None \<Rightarrow> False | Some i \<Rightarrow> not_null (schema_of t ! i))"

definition sql_update ::
  "table_name \<Rightarrow> (column_name \<times> val) list \<Rightarrow> column_name \<Rightarrow> val \<Rightarrow> database
     \<Rightarrow> error + database" where
  "sql_update t sets w v db =
     (case db t of
        None \<Rightarrow> Inl OperationalError
      | Some rs \<Rightarrow>
          (case col_index t w of
             None \<Rightarrow> Inl OperationalError
           | Some i \<Rightarrow>
               if list_ex (\<lambda>n. col_index t n = None) (map fst sets)
               then Inl OperationalError
               else if list_ex (\<lambda>r. sql_eq (cell r i) v) rs
                       \<and> list_ex (\<lambda>(n, x). x = VNull \<and> col_not_null t n) sets
               then Inl IntegrityError
               else Inr (db(t \<mapsto>
                      map (\<lambda>r. if sql_eq (cell r i) v then assign t sets r else r) rs))))"

text \<open>\<^verbatim>\<open>DELETE FROM t WHERE w = v\<close>.\<close>

definition sql_delete :: "table_name \<Rightarrow> column_name \<Rightarrow> val \<Rightarrow> database \<Rightarrow> error + database"
  where
  "sql_delete t w v db =
     (case db t of
        None \<Rightarrow> Inl OperationalError
      | Some rs \<Rightarrow>
          (case col_index t w of
             None \<Rightarrow> Inl OperationalError
           | Some i \<Rightarrow> Inr (db(t \<mapsto> filter (\<lambda>r. \<not> sql_eq (cell r i) v) rs))))"

text \<open>\<^verbatim>\<open>SELECT * FROM t WHERE w = v\<close>.\<close>

definition sql_select_eq :: "table_name \<Rightarrow> column_name \<Rightarrow> val \<Rightarrow> database \<Rightarrow> error + row list"
  where
  "sql_select_eq t w v db =
     (case db t of
        None \<Rightarrow> Inl OperationalError
      | Some rs \<Rightarrow>
          (case col_index t w of
             None \<Rightarrow> Inl OperationalError
           | Some i \<Rightarrow> Inr (filter (\<lambda>r. sql_eq (cell r i) v) rs)))"

section \<open>The connection\<close>

text \<open>
  The connection sees its own uncommitted changes (\<open>pending\<close>); \<open>committed\<close> is what
  the file holds. The one cursor of the handler keeps the rows of the last statement
  that are still to be fetched. \<open>faults\<close> is the environment: one flag for each
  statement execution or fetch still to come, true when the storage engine fails
  there (a locked file, an I/O error, an undecodable value); an exhausted list means
  no further failure. \<open>errlog\<close> collects what the handlers pass to
  \<^verbatim>\<open>logger.exception\<close>. \<open>rowid_draws\<close> lists what the random generator of the engine
  is going to yield.

  The rows of a table are kept for a table that has the columns of \<^verbatim>\<open>create_tables\<close>.
  A file of another origin may hold, under one of the three names, a table with other
  columns: \<open>other_tables\<close> records the columns of such a table. Its rows are not part
  of the model, and where \<open>pending\<close> has rows for a name, that table counts. No
  statement of the handler changes the columns of a table.
\<close>

record connection =
  committed :: database
  pending :: database
  cursor :: "row list"
  faults :: "bool list"
  errlog :: "error list"
  rowid_draws :: "int list"
  other_tables :: "table_name \<rightharpoonup> coldef list"

type_synonym 'a outcome = "(error + 'a) \<times> connection"

definition engine_fails :: "connection \<Rightarrow> bool" where
  "engine_fails c = (case faults c of [] \<Rightarrow> False | f # _ \<Rightarrow> f)"

definition engine_tick :: "connection \<Rightarrow> connection" where
  "engine_tick c = c\<lparr>faults := tl (faults c)\<rparr>"

definition commit :: "connection \<Rightarrow> connection" where
  "commit c = c\<lparr>committed := pending c\<rparr>"

definition rollback :: "connection \<Rightarrow> connection" where
  "rollback c = c\<lparr>pending := committed c\<rparr>"

text \<open>\<^verbatim>\<open>cursor.execute\<close> of a statement that writes, and of one that reads.\<close>

definition execute_write :: "(database \<Rightarrow> error + database) \<Rightarrow> connection \<Rightarrow> unit outcome"
  where
  "execute_write stmt c =
     (let c' = engine_tick c in
      if engine_fails c then (Inl OperationalError, c')
      else (case stmt (pending c') of
              Inl e \<Rightarrow> (Inl e, c')
            | Inr db \<Rightarrow> (Inr (), c'\<lparr>pending := db, cursor := []\<rparr>)))"

definition execute_read :: "(database \<Rightarrow> error + row list) \<Rightarrow> connection \<Rightarrow> unit outcome"
  where
  "execute_read stmt c =
     (let c' = engine_tick c in
      if engine_fails c then (Inl OperationalError, c')
      else (case stmt (pending c') of
              Inl e \<Rightarrow> (Inl e, c')
            | Inr rs \<Rightarrow> (Inr (), c'\<lparr>cursor := rs\<rparr>)))"

text \<open>\<^verbatim>\<open>cursor.execute\<close> of an INSERT, which may use up random draws.\<close>

definition execute_insert :: "table_name \<Rightarrow> row \<Rightarrow> connection \<Rightarrow> unit outcome" where
  "execute_insert t vs c =
     (let c' = engine_tick c in
      if engine_fails c then (Inl OperationalError, c')
      else (case sql_insert t vs (rowid_draws c') (pending c') of
              (Inl e, n) \<Rightarrow> (Inl e, c'\<lparr>rowid_draws := drop n (rowid_draws c')\<rparr>)
            | (Inr db, n) \<Rightarrow>
                (Inr (), c'\<lparr>pending := db, cursor := [],
                             rowid_draws := drop n (rowid_draws c')\<rparr>)))"



text \<open>Sequencing inside a \<^verbatim>\<open>try\<close> block: an exception skips what follows.\<close>

definition and_then :: "'a outcome \<Rightarrow> ('a \<Rightarrow> connection \<Rightarrow> 'b outcome) \<Rightarrow> 'b outcome" where
  "and_then m f = (case m of (Inl e, c) \<Rightarrow> (Inl e, c) | (Inr x, c) \<Rightarrow> f x c)"

text \<open>
  \<^verbatim>\<open>with self.connection:\<close> commits when the block ends normally and rolls back,
  then re-raises, when it ends with an exception.
\<close>

definition with_connection :: "(connection \<Rightarrow> 'a outcome) \<Rightarrow> connection \<Rightarrow> 'a outcome" where
  "with_connection body c =
     (case body c of
        (Inr x, c') \<Rightarrow> (Inr x, commit c')
      | (Inl e, c') \<Rightarrow> (Inl e, rollback c'))"

text \<open>
  \<^verbatim>\<open>except Exception: logger.exception(...)\<close>: the error is logged and the method
  returns \<^verbatim>\<open>None\<close>.
\<close>

definition log_exception :: "'a outcome \<Rightarrow> 'a option \<times> connection" where
  "log_exception m =
     (case m of
        (Inr x, c) \<Rightarrow> (Some x, c)
      | (Inl e, c) \<Rightarrow> (None, c\<lparr>errlog := errlog c @ [e]\<rparr>))"

section \<open>The handler\<close>



definition delete_entry :: "row \<Rightarrow> connection \<Rightarrow> error + connection" where
  "delete_entry entry c =
     (if length entry < 2 then Inl IndexError
      else Inr (snd (log_exception (with_connection
             (execute_write (sql_delete TMedia ColRowid (entry ! 0))) c))))"

definition add_genre :: "val \<Rightarrow> val \<Rightarrow> val \<Rightarrow> connection \<Rightarrow> connection" where
  "add_genre genre description examples c =
     snd (log_exception (with_connection (\<lambda>c.
       and_then (execute_insert TGenres [VNull, genre, description, examples] c)
         (\<lambda>_ c. (Inr (), commit c))) c))"

definition convert_entries :: "column_name \<Rightarrow> val \<Rightarrow> val \<Rightarrow> connection \<Rightarrow> connection" where
  "convert_entries column old_value new_value c =
     snd (log_exception (with_connection (\<lambda>c.
       and_then (execute_write (sql_update TMedia [(column, new_value)] column old_value) c)
         (\<lambda>_ c. (Inr (), commit c))) c))"

text \<open>\<^verbatim>\<open>entry[i]\<close> on the tuple passed by the caller.\<close>

definition py_index :: "row \<Rightarrow> nat \<Rightarrow> connection \<Rightarrow> val outcome" where
  "py_index entry i c = (if i < length entry then (Inr (entry ! i), c) else (Inl IndexError, c))"

definition delete_genre :: "row \<Rightarrow> connection \<Rightarrow> connection" where
  "delete_genre entry c =
     snd (log_exception (with_connection (\<lambda>c.
       and_then (py_index entry 1 c) (\<lambda>old_value c.
       and_then (Inr (), convert_entries ColGenre old_value (VText ''-DELETED GENRE-'') c) (\<lambda>_ c.
       and_then (py_index entry 0 c) (\<lambda>rowid c.
       and_then (execute_write (sql_delete TGenres ColRowid rowid) c) (\<lambda>_ c.
         (Inr (), commit c)))))) c))"

definition add_media_type :: "val \<Rightarrow> connection \<Rightarrow> connection" where
  "add_media_type media_type c =
     snd (log_exception (with_connection (\<lambda>c.
       and_then (execute_insert TMediaTypes [VNull, media_type] c)
         (\<lambda>_ c. (Inr (), commit c))) c))"

definition delete_media_type :: "row \<Rightarrow> connection \<Rightarrow> connection" where
  "delete_media_type entry c =
     snd (log_exception (with_connection (\<lambda>c.
       and_then (py_index entry 1 c) (\<lambda>old_value c.
       and_then (Inr (), convert_entries ColMediaType old_value
                   (VText ''-DELETED MEDIA TYPE-'') c) (\<lambda>_ c.
       and_then (py_index entry 0 c) (\<lambda>rowid c.
       and_then (execute_write (sql_delete TMediaTypes ColRowid rowid) c) (\<lambda>_ c.
         (Inr (), commit c)))))) c))"

subsection \<open>Reading\<close>

text \<open>
  \<^verbatim>\<open>cursor.fetchmany(count)\<close> takes its argument as a C int and raises
  \<^verbatim>\<open>OverflowError\<close>, before it touches the cursor, when \<open>count\<close> does not fit. It
  hands out the next \<open>count\<close> rows; it stops only when its row counter equals
  \<open>count\<close>, so a \<open>count\<close> below 1 hands out all that is left.
  \<^verbatim>\<open>cursor.fetchone()\<close> hands out the next row, or \<^verbatim>\<open>None\<close>.
\<close>

definition c_int :: "int \<Rightarrow> bool" where
  "c_int n = (- 2147483648 \<le> n \<and> n \<le> 2147483647)"

definition fetchmany :: "int \<Rightarrow> connection \<Rightarrow> (row list) outcome" where
  "fetchmany count c =
     (let c' = engine_tick c in
      if \<not> c_int count then (Inl OverflowError, c)
      else if engine_fails c then (Inl OperationalError, c')
      else if 0 < count
        then (Inr (take (nat count) (cursor c')), c'\<lparr>cursor := drop (nat count) (cursor c')\<rparr>)
        else (Inr (cursor c'), c'\<lparr>cursor := []\<rparr>))"

definition fetchone :: "connection \<Rightarrow> (row option) outcome" where
  "fetchone c =
     (let c' = engine_tick c in
      if engine_fails c then (Inl OperationalError, c')
      else (case cursor c' of
              [] \<Rightarrow> (Inr None, c')
            | r # rs \<Rightarrow> (Inr (Some r), c'\<lparr>cursor := rs\<rparr>)))"

definition fetchall :: "connection \<Rightarrow> (row list) outcome" where
  "fetchall c =
     (let c' = engine_tick c in
      if engine_fails c then (Inl OperationalError, c')
      else (Inr (cursor c'), c'\<lparr>cursor := []\<rparr>))"

text \<open>
  The loop of every generator:
  \<^verbatim>\<open>while True: results = fetchmany(count); if not results: break; yield each row\<close>.
  The result lists the chunks fetched, whose rows were yielded in order, and how the
  loop ended.
\<close>

function fetch_loop :: "int \<Rightarrow> connection \<Rightarrow> row list list \<times> unit outcome" where
  "fetch_loop count c =
     (case fetchmany count c of
        (Inl e, c') \<Rightarrow> ([], (Inl e, c'))
      | (Inr results, c') \<Rightarrow>
          if results = [] then ([], (Inr (), c'))
          else (case fetch_loop count c' of (chunks, r) \<Rightarrow> (results # chunks, r)))"
  by pat_completeness auto
termination
  by (relation "measure (\<lambda>(count, c). length (cursor c))")
     (auto simp: fetchmany_def engine_tick_def Let_def split: if_splits)

declare fetch_loop.simps [simp del]

text \<open>
  A generator: \<^verbatim>\<open>try: with self.connection: execute; loop  except Exception: log\<close>.
  What it yielded before an exception stays yielded.
\<close>

definition stream ::
  "(database \<Rightarrow> error + row list) \<Rightarrow> int \<Rightarrow> connection \<Rightarrow> row list list \<times> connection" where
  "stream stmt count c =
     (case execute_read stmt c of
        (Inl e, c1) \<Rightarrow>
          ([], snd (log_exception (with_connection (\<lambda>_. (Inl e, c1) :: unit outcome) c)))
      | (Inr u, c1) \<Rightarrow>
          (case fetch_loop count c1 of
             (chunks, r) \<Rightarrow> (chunks, snd (log_exception (with_connection (\<lambda>_. r) c)))))"

definition select_one_entry ::
  "table_name \<Rightarrow> column_name \<Rightarrow> val \<Rightarrow> connection \<Rightarrow> row option \<times> connection" where
  "select_one_entry table column v c =
     (case log_exception (with_connection (\<lambda>c.
             and_then (execute_read (sql_select_eq table column v) c) (\<lambda>_ c. fetchone c)) c) of
        (Some entry, c') \<Rightarrow> (entry, c')
      | (None, c') \<Rightarrow> (None, c'))"

definition check_if_entry_exists ::
  "table_name \<Rightarrow> column_name \<Rightarrow> val \<Rightarrow> connection \<Rightarrow> bool option \<times> connection" where
  "check_if_entry_exists table column entry c =
     log_exception (with_connection (\<lambda>c.
       and_then (execute_read (sql_select_eq table column entry) c) (\<lambda>_ c.
       and_then (fetchall c) (\<lambda>rs c. (Inr (rs \<noteq> []), c)))) c)"


subsection \<open>Searching, listing, filtering\<close>

text \<open>
  The decimal text of an integer, as SQLite renders an integer where a text is
  expected.
\<close>

function nat_digits :: "nat \<Rightarrow> string" where
  "nat_digits n =
     (if n < 10 then [char_of (48 + n)]
      else nat_digits (n div 10) @ [char_of (48 + n mod 10)])"
  by pat_completeness auto
termination
  by (relation "measure (\<lambda>n. n)") auto

definition int_text :: "int \<Rightarrow> string" where
  "int_text i = (if i < 0 then CHR ''-'' # nat_digits (nat (- i)) else nat_digits (nat i))"

text \<open>
  SQLite's LIKE: \<^verbatim>\<open>%\<close> in the pattern stands for any run of characters, \<^verbatim>\<open>_\<close> for any
  one character, every other character for itself, upper and lower case of the
  letters A to Z taken as equal. A NULL operand matches nothing; an integer operand
  is matched through its decimal text. The engine reads pattern and text as C
  strings, which end at their first NUL character, and refuses a pattern of more than
  50000 bytes of UTF-8 as soon as it has a row to match.
\<close>

definition ascii_lower :: "char \<Rightarrow> char" where
  "ascii_lower ch =
     (if CHR ''A'' \<le> ch \<and> ch \<le> CHR ''Z'' then char_of (of_char ch + (32::nat)) else ch)"

fun like :: "string \<Rightarrow> string \<Rightarrow> bool" where
  "like [] s = (s = [])"
| "like (p # ps) s =
     (if p = CHR ''%''
      then like ps s \<or> (case s of [] \<Rightarrow> False | ch # cs \<Rightarrow> like (p # ps) cs)
      else (case s of
              [] \<Rightarrow> False
            | ch # cs \<Rightarrow> (p = CHR ''_'' \<or> ascii_lower p = ascii_lower ch) \<and> like ps cs))"

definition c_string :: "string \<Rightarrow> string" where
  "c_string s = takeWhile (\<lambda>ch. ch \<noteq> CHR 0x00) s"

definition utf8_length :: "string \<Rightarrow> nat" where
  "utf8_length s = length s + length (filter (\<lambda>ch. (127::nat) < of_char ch) s)"

definition like_val :: "string \<Rightarrow> val \<Rightarrow> bool" where
  "like_val pat v =
     (case v of
        VNull \<Rightarrow> False
      | VInt i \<Rightarrow> like (c_string pat) (int_text i)
      | VText s \<Rightarrow> like (c_string pat) (c_string s))"

text \<open>\<^verbatim>\<open>SELECT * FROM t WHERE c1 LIKE :query OR c2 LIKE :query ...\<close>.\<close>

definition sql_select_like ::
  "table_name \<Rightarrow> column_name list \<Rightarrow> string \<Rightarrow> database \<Rightarrow> error + row list" where
  "sql_select_like t cols pat db =
     (case db t of
        None \<Rightarrow> Inl OperationalError
      | Some rs \<Rightarrow>
          if list_ex (\<lambda>n. col_index t n = None) cols then Inl OperationalError
          else if rs \<noteq> [] \<and> 50000 < utf8_length pat then Inl OperationalError
          else Inr (filter (\<lambda>r. list_ex (\<lambda>n. like_val pat (cell r (the (col_index t n)))) cols)
                      rs))"

definition search ::
  "string \<Rightarrow> column_name option \<Rightarrow> int \<Rightarrow> connection \<Rightarrow> row list list \<times> connection" where
  "search query column count c =
     (case column of
        None \<Rightarrow>
          stream (sql_select_like TMedia [ColTitle, ColDescription, ColGenre, ColNotes]
                    (''%'' @ query @ ''%'')) count c
      | Some col \<Rightarrow>
          stream (sql_select_like TMedia [col] (''%'' @ query @ ''%'')) count c)"

text \<open>
  ORDER BY sorts NULL first, then integers by value, then texts character by
  character. The key below carries that order into the lexicographic order of triples.
\<close>

definition val_key :: "val \<Rightarrow> nat \<times> int \<times> string" where
  "val_key v =
     (case v of VNull \<Rightarrow> (0, 0, []) | VInt i \<Rightarrow> (1, i, []) | VText s \<Rightarrow> (2, 0, s))"


definition sql_select_distinct :: "table_name \<Rightarrow> column_name \<Rightarrow> database \<Rightarrow> error + row list"
  where
  "sql_select_distinct t col db =
     (case db t of
        None \<Rightarrow> Inl OperationalError
      | Some rs \<Rightarrow>
          (case col_index t col of
             None \<Rightarrow> Inl OperationalError
           | Some i \<Rightarrow>
               Inr (map (\<lambda>v. [v]) (sort_key val_key (remdups (map (\<lambda>r. cell r i) rs))))))"



text \<open>
  \<^verbatim>\<open>filter_entries\<close> does not bind its value: it splices it between quotes,
  \<^verbatim>\<open>WHERE c=('value') ORDER BY c\<close>. \<open>sql_string_literal\<close> reads a literal from the text
  behind the opening quote, up to the first quote that is not doubled, and returns
  the text it denotes and what follows. When what follows is the \<^verbatim>\<open>)\<close> of the
  template, the statement compares the column with that text; when the literal ends
  earlier, SQL text of the value is left over and the statement is taken to fail.
  An integer cell equals the literal that is its decimal text.
\<close>

fun sql_string_literal :: "string \<Rightarrow> (string \<times> string) option" where
  "sql_string_literal [] = None"
| "sql_string_literal [ch] = (if ch = CHR 0x27 then Some ([], []) else None)"
| "sql_string_literal (ch # ch' # cs) =
     (if ch = CHR 0x27 then
        (if ch' = CHR 0x27
         then map_option (\<lambda>(s, rest). (ch # s, rest)) (sql_string_literal cs)
         else Some ([], ch' # cs))
      else map_option (\<lambda>(s, rest). (ch # s, rest)) (sql_string_literal (ch' # cs)))"

definition eq_literal :: "val \<Rightarrow> string \<Rightarrow> bool" where
  "eq_literal v lit =
     (case v of VNull \<Rightarrow> False | VInt i \<Rightarrow> int_text i = lit | VText s \<Rightarrow> s = lit)"

definition sql_select_spliced ::
  "table_name \<Rightarrow> column_name \<Rightarrow> string \<Rightarrow> database \<Rightarrow> error + row list" where
  "sql_select_spliced t col v db =
     (case db t of
        None \<Rightarrow> Inl OperationalError
      | Some rs \<Rightarrow>
          (case col_index t col of
             None \<Rightarrow> Inl OperationalError
           | Some i \<Rightarrow>
               (case sql_string_literal (v @ [CHR 0x27, CHR '')'']) of
                  None \<Rightarrow> Inl OperationalError
                | Some (lit, rest) \<Rightarrow>
                    if rest = '')''
                    then Inr (sort_key (\<lambda>r. val_key (cell r i))
                                (filter (\<lambda>r. eq_literal (cell r i) lit) rs))
                    else Inl OperationalError)))"

definition filter_entries ::
  "table_name \<Rightarrow> column_name \<Rightarrow> string \<Rightarrow> int \<Rightarrow> connection \<Rightarrow> row list list \<times> connection"
  where
  "filter_entries table column v count c = stream (sql_select_spliced table column v) count c"

subsection \<open>The remaining methods\<close>

definition update_genre :: "val \<Rightarrow> val \<Rightarrow> val \<Rightarrow> val \<Rightarrow> connection \<Rightarrow> connection" where
  "update_genre rowid genre description examples c =
     snd (log_exception (with_connection (\<lambda>c.
       and_then (execute_write (sql_update TGenres
           [(ColGenre, genre), (ColDescription, description), (ColExamples, examples)]
           ColRowid rowid) c)
         (\<lambda>_ c. (Inr (), commit c))) c))"

definition update_media_type :: "val \<Rightarrow> val \<Rightarrow> connection \<Rightarrow> connection" where
  "update_media_type rowid media_type c =
     snd (log_exception (with_connection (\<lambda>c.
       and_then (execute_write (sql_update TMediaTypes [(ColType, media_type)]
           ColRowid rowid) c)
         (\<lambda>_ c. (Inr (), commit c))) c))"

text \<open>
  The constructor connects to the file and makes the cursor, with no \<^verbatim>\<open>try\<close> around
  it: when \<^verbatim>\<open>sqlite3.connect\<close> fails, the exception goes to the caller. \<open>env\<close> is the
  environment that the new connection is going to meet, its first flag the one for
  the connect itself.
\<close>

definition init ::
  "database \<Rightarrow> (table_name \<rightharpoonup> coldef list) \<Rightarrow> bool list \<Rightarrow> int list \<Rightarrow> error + connection"
  where
  "init db others env draws =
     (case env of
        True # fs \<Rightarrow> Inl OperationalError
      | _ \<Rightarrow>
          Inr \<lparr>committed = db, pending = db, cursor = [], faults = tl env, errlog = [],
               rowid_draws = draws, other_tables = others\<rparr>)"

text \<open>
  \<^verbatim>\<open>close\<close> closes cursor and connection inside \<^verbatim>\<open>try\<close>; what was not committed is
  lost. The connection is not used afterwards.
\<close>

definition close :: "connection \<Rightarrow> connection" where
  "close c =
     snd (log_exception
       (let c' = engine_tick c in
        if engine_fails c then (Inl OperationalError, c')
        else (Inr (), rollback (c'\<lparr>cursor := []\<rparr>))))"

text \<open>
  \<^verbatim>\<open>count_entries\<close> counts the media rows, then walks through
  \<^verbatim>\<open>return_distinct_entries("media", "media_type")\<close> and counts the rows of each media
  type, on the one cursor that the generator reads from as well. An exception of the
  generator's own statement or fetch is caught inside the generator, which then just
  ends; an exception of a count ends \<^verbatim>\<open>count_entries\<close>.
\<close>

definition sql_count_all :: "database \<Rightarrow> error + row list" where
  "sql_count_all db =
     (case db TMedia of
        None \<Rightarrow> Inl OperationalError
      | Some rs \<Rightarrow> Inr [[VInt (int (length rs))]])"

definition sql_count_where :: "val \<Rightarrow> database \<Rightarrow> error + row list" where
  "sql_count_where v db =
     (case db TMedia of
        None \<Rightarrow> Inl OperationalError
      | Some rs \<Rightarrow>
          (case col_index TMedia ColMediaType of
             None \<Rightarrow> Inl OperationalError
           | Some i \<Rightarrow> Inr [[VInt (int (length (filter (\<lambda>r. sql_eq (cell r i) v) rs)))]]))"

text \<open>How an f-string prints a value, and \<^verbatim>\<open>output.rstrip(", ")\<close>.\<close>

definition py_str :: "val \<Rightarrow> string" where
  "py_str v = (case v of VNull \<Rightarrow> ''None'' | VInt i \<Rightarrow> int_text i | VText s \<Rightarrow> s)"

definition rstrip :: "string \<Rightarrow> string \<Rightarrow> string" where
  "rstrip chars s = rev (dropWhile (\<lambda>ch. ch \<in> set chars) (rev s))"

definition py_index_opt :: "row option \<Rightarrow> nat \<Rightarrow> connection \<Rightarrow> val outcome" where
  "py_index_opt entry i c =
     (case entry of None \<Rightarrow> (Inl TypeError, c) | Some r \<Rightarrow> py_index r i c)"

definition summary_head :: "val \<Rightarrow> string" where
  "summary_head n = ''Total Media Count: '' @ py_str n @ '' entries'' @ [CHR 0x0A]"

text \<open>The body of the \<^verbatim>\<open>for\<close> loop, run for the rows of one chunk.\<close>

fun count_loop :: "row list \<Rightarrow> string \<Rightarrow> connection \<Rightarrow> string outcome" where
  "count_loop [] summary c = (Inr summary, c)"
| "count_loop (media_type # rest) summary c =
     and_then (py_index media_type 0 c) (\<lambda>type c.
     and_then (execute_read (sql_count_where type) c) (\<lambda>_ c.
     and_then (fetchone c) (\<lambda>count c.
     and_then (py_index_opt count 0 c) (\<lambda>n c.
       count_loop rest (summary @ py_str type @ '': '' @ py_str n @ '', '') c))))"

text \<open>The generator leaves its \<^verbatim>\<open>with\<close> and \<^verbatim>\<open>try\<close>, normally or with an exception.\<close>

definition leave_generator :: "unit outcome \<Rightarrow> connection" where
  "leave_generator r = snd (log_exception (with_connection (\<lambda>_. r) (snd r)))"

text \<open>
  The generator fetches a chunk of at most 1000 rows, the loop body runs for each of
  them, and the generator fetches again, from whatever the body left in the cursor.
\<close>

function count_rounds :: "string \<Rightarrow> connection \<Rightarrow> string outcome" where
  "count_rounds summary c =
     (case fetchmany 1000 c of
        (Inl e, c1) \<Rightarrow> (Inr summary, leave_generator (Inl e, c1))
      | (Inr results, c1) \<Rightarrow>
          if results = [] then (Inr summary, leave_generator (Inr (), c1))
          else (case count_loop results summary c1 of
                  (Inl e, c2) \<Rightarrow> (Inl e, c2)
                | (Inr summary', c2) \<Rightarrow> count_rounds summary' c2))"
  by pat_completeness auto
termination
proof -
  have emptied: "cursor c' = []"
    if "count_loop rs out c0 = (Inr out', c')" and "rs \<noteq> []" for rs out c0 out' c'
    using that
  proof (induction rs arbitrary: out c0)
    case Nil
    then show ?case by simp
  next
    case (Cons r rs)
    show ?case
    proof (cases rs)
      case Nil
      then show ?thesis
        using Cons.prems(1)
        by (auto simp: and_then_def py_index_def py_index_opt_def execute_read_def
            fetchone_def engine_tick_def Let_def sql_count_where_def
            split: if_splits sum.splits prod.splits list.splits option.splits)
    next
      case (Cons r' rs')
      have "\<exists>out1 c1. count_loop rs out1 c1 = (Inr out', c')"
        using Cons.prems(1)
        by (subst (asm) count_loop.simps(2))
           (auto simp: and_then_def py_index_def py_index_opt_def execute_read_def
            fetchone_def engine_tick_def Let_def
            simp del: count_loop.simps(2)
            split: if_splits sum.splits prod.splits list.splits option.splits)
      then show ?thesis
        using Cons.IH Cons by auto
    qed
  qed
  show ?thesis
    by (relation "measure (\<lambda>(summary, c). length (cursor c))")
       (auto simp: fetchmany_def engine_tick_def Let_def dest: emptied[OF sym]
          split: if_splits)
qed

declare count_rounds.simps [simp del]

definition count_entries :: "connection \<Rightarrow> string option \<times> connection" where
  "count_entries c =
     (case log_exception (with_connection (\<lambda>c.
             and_then (execute_read sql_count_all c) (\<lambda>_ c.
             and_then (fetchone c) (\<lambda>total c.
             and_then (py_index_opt total 0 c) (\<lambda>n c.
               (case execute_read (sql_select_distinct TMedia ColMediaType) c of
                  (Inl e, c1) \<Rightarrow> (Inr (summary_head n), leave_generator (Inl e, c1))
                | (Inr u, c1) \<Rightarrow> count_rounds (summary_head n) c1))))) c) of
        (Some summary, c') \<Rightarrow> (Some (rstrip '', '' summary), c')
      | (None, c') \<Rightarrow> (None, c'))"

definition str_of :: "string \<Rightarrow> connection \<Rightarrow> string \<times> connection" where
  "str_of file_name c =
     (case count_entries c of
        (counted, c') \<Rightarrow>
          (''Database: '' @ file_name @ [CHR 0x0A] @ ''Containing:'' @ [CHR 0x0A]
             @ (case counted of None \<Rightarrow> ''None'' | Some s \<Rightarrow> s) @ ''.'', c'))"


text \<open>
  What the specification asks of a search: the value contains the query as a run of
  consecutive characters, the letters A to Z compared without regard to case.
\<close>

definition contains_ci :: "string \<Rightarrow> val \<Rightarrow> bool" where
  "contains_ci q v =
     (case v of
        VNull \<Rightarrow> False
      | VInt i \<Rightarrow> sublist (map ascii_lower q) (map ascii_lower (int_text i))
      | VText s \<Rightarrow> sublist (map ascii_lower q) (map ascii_lower s))"

text \<open>
  What the engine reads of a stored value that it matches as a C string: a text up to
  its first NUL character.
\<close>

definition before_nul :: "val \<Rightarrow> val" where
  "before_nul v = (case v of VText s \<Rightarrow> VText (c_string s) | _ \<Rightarrow> v)"

text \<open>
  Lower case as Unicode has it for the letters of Latin-1: A to Z, and the accented
  capitals from 192 to 222 without the multiplication sign 215, each 32 below its
  small letter. A search that knew no case at all would compare through it.
\<close>

definition latin1_lower :: "char \<Rightarrow> char" where
  "latin1_lower ch =
     (let n = of_char ch :: nat in
      if (65 \<le> n \<and> n \<le> 90) \<or> (192 \<le> n \<and> n \<le> 222 \<and> n \<noteq> 215) then char_of (n + 32)
      else ch)"



section \<open>A small store for concrete runs\<close>

definition example_db :: database where
  "example_db =
     [TMedia \<mapsto>
        [[VInt 1, VText ''Dune'', VText '''', VText ''PG'', VText ''Action'', VInt 0, VInt 1,
          VText ''Blu-ray'', VInt 155, VText '''']],
      TGenres \<mapsto> [[VInt 1, VText ''Action'', VText '''', VText '''']],
      TMediaTypes \<mapsto> [[VInt 1, VText ''Blu-ray'']]]"

definition connect :: "database \<Rightarrow> connection" where
  "connect db =
     \<lparr>committed = db, pending = db, cursor = [], faults = [], errlog = [],
      rowid_draws = [], other_tables = Map.empty\<rparr>"

definition sentinel_db :: database where
  "sentinel_db =
     [TMedia \<mapsto>
        [[VInt 1, VText ''Dune'', VText '''', VText ''PG'', VText ''-DELETED GENRE-'', VInt 0,
          VInt 1, VText ''Blu-ray'', VInt 155, VText '''']],
      TGenres \<mapsto> [[VInt 1, VText ''-DELETED GENRE-'', VText '''', VText '''']],
      TMediaTypes \<mapsto> [[VInt 1, VText ''Blu-ray'']]]"

definition wildcard_db :: database where
  "wildcard_db =
     [TMedia \<mapsto>
        [[VInt 1, VText ''abc'', VText '''', VText '''', VText '''', VInt 0, VInt 1,
          VText '''', VInt 0, VText '''']],
      TGenres \<mapsto> [],
      TMediaTypes \<mapsto> []]"


definition quote_db :: database where
  "quote_db =
     [TMedia \<mapsto>
        [[VInt 1, VText (''O'' @ [CHR 0x27] @ ''Brien''), VText '''', VText ''PG'',
          VText ''Drama'', VInt 0, VInt 1, VText ''DVD'', VInt 90, VText '''']],
      TGenres \<mapsto> [],
      TMediaTypes \<mapsto> []]"

definition one_title_db :: "string \<Rightarrow> database" where
  "one_title_db title =
     [TMedia \<mapsto>
        [[VInt 1, VText title, VText '''', VText '''', VText '''', VInt 0, VInt 1,
          VText '''', VInt 0, VText '''']],
      TGenres \<mapsto> [],
      TMediaTypes \<mapsto> []]"




section \<open>Properties\<close>

subsection \<open>Facts about the schema and the statements\<close>

lemmas columns_defs = media_columns_def genres_columns_def media_types_columns_def mk_col_def




lemma col_index_rowid: "col_index t ColRowid = Some 0"
  by (cases t) (simp_all add: col_index_def columns_defs)

lemma col_index_media:
  "col_index TMedia ColTitle = Some 1"
  "col_index TMedia ColDescription = Some 2"
  "col_index TMedia ColAgeRating = Some 3"
  "col_index TMedia ColGenre = Some 4"
  "col_index TMedia ColSeason = Some 5"
  "col_index TMedia ColDiscCount = Some 6"
  "col_index TMedia ColMediaType = Some 7"
  "col_index TMedia ColPlayTime = Some 8"
  "col_index TMedia ColNotes = Some 9"
  by (simp_all add: col_index_def columns_defs eval_nat_numeral)

lemma all_tables: "(\<forall>t. P t) = (P TMedia \<and> P TGenres \<and> P TMediaTypes)"
  by (metis table_name.exhaust)


lemma tick_idle: "faults c = [] \<Longrightarrow> engine_tick c = c"
  by (simp add: engine_tick_def)

lemma fails_idle: "faults c = [] \<Longrightarrow> \<not> engine_fails c"
  by (simp add: engine_fails_def)

subsection \<open>Facts about deleting a genre\<close>

lemma col_index_media_genre: "col_index TMedia ColGenre = Some 4"
  by (rule col_index_media)

lemma col_not_null_media_genre: "\<not> col_not_null TMedia ColGenre"
  by (simp add: col_not_null_def col_index_def columns_defs)

lemma upd_genre_fn:
  "(\<lambda>r. if sql_eq (cell r 4) (VText old) then assign TMedia [(ColGenre, VText new)] r else r)
     = (\<lambda>r. if cell r 4 = VText old then r[4 := VText new] else r)"
  by (auto simp: fun_eq_iff sql_eq_def col_index_media_genre)

lemma del_genre_fn:
  "(\<lambda>g. \<not> sql_eq (cell g 0) (VInt gid)) = (\<lambda>g. cell g 0 \<noteq> VInt gid)"
  by (auto simp: fun_eq_iff sql_eq_def)

lemma convert_entries_genre_ok:
  assumes "faults c = []" and "pending c TMedia = Some ms"
  shows "convert_entries ColGenre (VText old) (VText new) c =
           c\<lparr>committed := (pending c)(TMedia \<mapsto>
                 map (\<lambda>r. if cell r 4 = VText old then r[4 := VText new] else r) ms),
             pending := (pending c)(TMedia \<mapsto>
                 map (\<lambda>r. if cell r 4 = VText old then r[4 := VText new] else r) ms),
             cursor := []\<rparr>"
  using assms
  by (simp add: convert_entries_def log_exception_def with_connection_def and_then_def
      execute_write_def engine_tick_def engine_fails_def commit_def Let_def sql_update_def
      col_index_media_genre col_not_null_media_genre upd_genre_fn)

lemma delete_genre_ok:
  assumes "faults c = []" and "pending c TMedia = Some ms" and "pending c TGenres = Some gs"
    and "cell entry 0 = VInt gid" and "cell entry 1 = VText name"
  shows "delete_genre entry c =
           c\<lparr>committed := (pending c)(TMedia \<mapsto>
                 map (\<lambda>r. if cell r 4 = VText name
                          then r[4 := VText ''-DELETED GENRE-''] else r) ms,
                 TGenres \<mapsto> filter (\<lambda>g. cell g 0 \<noteq> VInt gid) gs),
             pending := (pending c)(TMedia \<mapsto>
                 map (\<lambda>r. if cell r 4 = VText name
                          then r[4 := VText ''-DELETED GENRE-''] else r) ms,
                 TGenres \<mapsto> filter (\<lambda>g. cell g 0 \<noteq> VInt gid) gs),
             cursor := []\<rparr>"
proof -
  have l: "1 < length entry" "0 < length entry" "entry ! 1 = VText name" "entry ! 0 = VInt gid"
    using assms(4,5) by (auto simp: cell_def split: if_splits)
  show ?thesis
    using assms(1,2,3) l
    by (simp add: delete_genre_def convert_entries_genre_ok py_index_def log_exception_def
        with_connection_def and_then_def execute_write_def engine_tick_def engine_fails_def
        commit_def Let_def sql_delete_def col_index_rowid del_genre_fn)
qed

subsection \<open>Facts about updating and inserting\<close>






text \<open>While the largest key of 64 bits is not in use, the engine finds a key.\<close>

lemma new_rowid_found:
  assumes "\<forall>i \<in> set (row_ids rs). i < max_rowid"
  shows "\<exists>k. new_rowid rs draws = (Some k, 0)"
proof (cases "row_ids rs")
  case Nil
  then show ?thesis by (simp add: new_rowid_def)
next
  case (Cons i js)
  have "fold max js i \<in> set (i # js)"
    using Max_in[of "set (i # js)"] by (simp only: Max.set_eq_fold[symmetric]) simp
  then have "fold max js i < max_rowid" using assms Cons by auto
  then show ?thesis using Cons by (simp add: new_rowid_def)
qed



subsection \<open>Facts about the fetch loop and the generators\<close>

lemma fetch_loop_chunk_size:
  "0 < count \<Longrightarrow> \<forall>ch \<in> set (fst (fetch_loop count c)). length ch \<le> nat count"
proof (induction count c rule: fetch_loop.induct)
  case (1 count c)
  show ?case
  proof (cases "fetchmany count c")
    case (Pair a c')
    show ?thesis
    proof (cases a)
      case (Inl e)
      then show ?thesis using Pair by (subst fetch_loop.simps) simp
    next
      case (Inr results)
      show ?thesis
      proof (cases "results = []")
        case True
        then show ?thesis using Pair Inr by (subst fetch_loop.simps) simp
      next
        case False
        have ih: "\<forall>ch \<in> set (fst (fetch_loop count c')). length ch \<le> nat count"
          using "1.IH"[OF Pair[symmetric] Inr False] "1.prems" by simp
        have len: "length results \<le> nat count"
          using Pair Inr "1.prems"
          by (auto simp: fetchmany_def Let_def split: if_splits)
        show ?thesis
          using Pair Inr False ih len
          by (subst fetch_loop.simps) (simp split: prod.splits)
      qed
    qed
  qed
qed

lemma fetch_loop_idle:
  "faults c = [] \<Longrightarrow> c_int count \<Longrightarrow>
     concat (fst (fetch_loop count c)) = cursor c
     \<and> snd (fetch_loop count c) = (Inr (), c\<lparr>cursor := []\<rparr>)"
proof (induction count c rule: fetch_loop.induct)
  case (1 count c)
  show ?case
  proof (cases "fetchmany count c")
    case (Pair a c')
    have nf: "\<not> engine_fails c" using "1.prems"(1) by (rule fails_idle)
    then obtain results where a: "a = Inr results"
      using Pair "1.prems"(2) by (auto simp: fetchmany_def Let_def split: if_splits)
    have c': "faults c' = []" "results @ cursor c' = cursor c"
        "c'\<lparr>cursor := []\<rparr> = c\<lparr>cursor := []\<rparr>"
      using Pair a nf "1.prems"
      by (auto simp: fetchmany_def Let_def tick_idle split: if_splits)
    show ?thesis
    proof (cases "results = []")
      case True
      have "cursor c = []" "c' = c\<lparr>cursor := []\<rparr>"
        using Pair a nf "1.prems" True
        by (auto simp: fetchmany_def Let_def tick_idle split: if_splits)
      then show ?thesis using Pair a True by (subst (1 2) fetch_loop.simps) simp
    next
      case False
      have ih: "concat (fst (fetch_loop count c')) = cursor c'
                \<and> snd (fetch_loop count c') = (Inr (), c'\<lparr>cursor := []\<rparr>)"
        using "1.IH"[OF Pair[symmetric] a False] c'(1) "1.prems"(2) by simp
      show ?thesis
        using Pair a False ih c'
        by (subst (1 2) fetch_loop.simps) (auto split: prod.splits)
    qed
  qed
qed

lemma stream_idle:
  assumes "faults c = []" and "stmt (pending c) = Inr rs" and "c_int count"
  shows "concat (fst (stream stmt count c)) = rs"
    and "snd (stream stmt count c) = c\<lparr>cursor := [], committed := pending c\<rparr>"
    and "0 < count \<Longrightarrow> \<forall>ch \<in> set (fst (stream stmt count c)). length ch \<le> nat count"
proof -
  have ex: "execute_read stmt c = (Inr (), c\<lparr>cursor := rs\<rparr>)"
    using assms by (simp add: execute_read_def tick_idle fails_idle Let_def)
  have f: "faults (c\<lparr>cursor := rs\<rparr>) = []" using assms(1) by simp
  note fl = fetch_loop_idle[OF f assms(3)]
  show "concat (fst (stream stmt count c)) = rs"
    using ex fl by (auto simp add: stream_def split: prod.splits)
  show "snd (stream stmt count c) = c\<lparr>cursor := [], committed := pending c\<rparr>"
    using ex fl
    by (auto simp add: stream_def log_exception_def with_connection_def commit_def
        split: prod.splits)
  show "0 < count \<Longrightarrow> \<forall>ch \<in> set (fst (stream stmt count c)). length ch \<le> nat count"
    using ex fetch_loop_chunk_size[of count "c\<lparr>cursor := rs\<rparr>"]
    by (auto simp add: stream_def split: prod.splits)
qed

subsection \<open>Facts about LIKE\<close>

lemma like_percent: "like ''%'' s"
  by (induction s) simp_all

lemma like_prefix:
  "CHR ''%'' \<notin> set q \<Longrightarrow> CHR ''_'' \<notin> set q \<Longrightarrow>
     like (q @ ''%'') s = prefix (map ascii_lower q) (map ascii_lower s)"
proof (induction q arbitrary: s)
  case Nil
  then show ?case using like_percent by simp
next
  case (Cons p ps)
  then show ?case by (cases s) auto
qed

lemma like_infix:
  assumes "CHR ''%'' \<notin> set q" and "CHR ''_'' \<notin> set q"
  shows "like (''%'' @ q @ ''%'') s = sublist (map ascii_lower q) (map ascii_lower s)"
proof (induction s)
  case Nil
  show ?case using like_prefix[OF assms, of "[]"] by simp
next
  case (Cons ch cs)
  have "like (''%'' @ q @ ''%'') (ch # cs)
          = (like (q @ ''%'') (ch # cs) \<or> like (''%'' @ q @ ''%'') cs)"
    by simp
  also have "\<dots> = (prefix (map ascii_lower q) (map ascii_lower (ch # cs))
                    \<or> sublist (map ascii_lower q) (map ascii_lower cs))"
    using like_prefix[OF assms] Cons.IH by simp
  also have "\<dots> = sublist (map ascii_lower q) (map ascii_lower (ch # cs))"
    by (simp add: sublist_Cons_right)
  finally show ?case .
qed

lemma c_string_plain: "CHR 0x00 \<notin> set s \<Longrightarrow> c_string s = s"
  by (simp add: c_string_def takeWhile_eq_all_conv) metis

lemma like_val_infix:
  assumes "CHR ''%'' \<notin> set q" and "CHR ''_'' \<notin> set q" and "CHR 0x00 \<notin> set q"
  shows "like_val (''%'' @ q @ ''%'') v = contains_ci q (before_nul v)"
proof -
  have "c_string (''%'' @ q @ ''%'') = ''%'' @ q @ ''%''"
    using assms(3) by (intro c_string_plain) simp
  then show ?thesis
    using like_infix[OF assms(1,2)]
    by (simp add: like_val_def contains_ci_def before_nul_def split: val.splits)
qed

lemma utf8_length_append: "utf8_length (xs @ ys) = utf8_length xs + utf8_length ys"
  by (simp add: utf8_length_def)

lemma utf8_length_pattern: "utf8_length (CHR ''%'' # q @ ''%'') = utf8_length q + 2"
  by (simp add: utf8_length_def)

subsection \<open>Facts about sorting\<close>








subsection \<open>Facts about creating the tables\<close>


subsection \<open>Deleting a genre\<close>

text \<open>
  C1, as the code has it. On a working store, deleting a genre row \<open>(gid, name, ...)\<close>
  of the genres table whose name is not the placeholder \<^verbatim>\<open>-DELETED GENRE-\<close> itself
  rewrites the genre of exactly the media rows that carried \<open>name\<close> to the
  placeholder and leaves every other field and row as it was; afterwards no media row
  carries \<open>name\<close>, the genres table holds no row with key \<open>gid\<close>, and the change is
  committed.
\<close>

theorem delete_genre_rewrites:
  assumes "faults c = []" and "pending c TMedia = Some ms" and "pending c TGenres = Some gs"
    and "entry \<in> set gs" and "cell entry 0 = VInt gid" and "cell entry 1 = VText name"
    and "name \<noteq> ''-DELETED GENRE-''"
    and "c' = delete_genre entry c"
  shows "pending c' TMedia =
           Some (map (\<lambda>r. if cell r 4 = VText name
                           then r[4 := VText ''-DELETED GENRE-''] else r) ms)
       \<and> (\<forall>ms'. pending c' TMedia = Some ms' \<longrightarrow> (\<forall>r \<in> set ms'. cell r 4 \<noteq> VText name))
       \<and> pending c' TGenres = Some (filter (\<lambda>g. cell g 0 \<noteq> VInt gid) gs)
       \<and> (\<forall>gs'. pending c' TGenres = Some gs' \<longrightarrow> entry \<notin> set gs')
       \<and> committed c' = pending c'"
proof -
  note ok = delete_genre_ok[OF assms(1,2,3,5,6)]
  have "\<And>r. cell r 4 = VText name \<Longrightarrow>
          cell (r[4 := VText ''-DELETED GENRE-'']) 4 \<noteq> VText name"
    using assms(7) by (auto simp: cell_def split: if_splits)
  then show ?thesis using assms(5,8) by (auto simp: ok)
qed

theorem delete_genre_rewrites_witness:
  "pending (delete_genre [VInt 1, VText ''Action'', VText '''', VText '''']
      (connect example_db)) TMedia
     = Some [[VInt 1, VText ''Dune'', VText '''', VText ''PG'', VText ''-DELETED GENRE-'',
              VInt 0, VInt 1, VText ''Blu-ray'', VInt 155, VText '''']]
   \<and> pending (delete_genre [VInt 1, VText ''Action'', VText '''', VText '''']
      (connect example_db)) TGenres = Some []"
  using delete_genre_rewrites[of "connect example_db"
      "[[VInt 1, VText ''Dune'', VText '''', VText ''PG'', VText ''Action'', VInt 0, VInt 1,
         VText ''Blu-ray'', VInt 155, VText '''']]"
      "[[VInt 1, VText ''Action'', VText '''', VText '''']]"
      "[VInt 1, VText ''Action'', VText '''', VText '''']" 1 "''Action''"]
  by (simp add: connect_def example_db_def cell_def)

text \<open>
  The claim as it is written fails for a genre that is named like the placeholder:
  the media row keeps a genre equal to the name of the deleted genre.
\<close>

theorem delete_genre_sentinel_counterexample:
  "pending (delete_genre [VInt 1, VText ''-DELETED GENRE-'', VText '''', VText '''']
      (connect sentinel_db)) TMedia
   = Some [[VInt 1, VText ''Dune'', VText '''', VText ''PG'', VText ''-DELETED GENRE-'', VInt 0,
          VInt 1, VText ''Blu-ray'', VInt 155, VText '''']]"
  by (simp add: delete_genre_ok[of _ _ _ _ 1 "''-DELETED GENRE-''"] connect_def
      sentinel_db_def cell_def)

subsection \<open>Deleting a genre is not one transaction\<close>

text \<open>
  C2. \<^verbatim>\<open>convert_entries\<close> commits on its own inside the \<^verbatim>\<open>with\<close> block of
  \<^verbatim>\<open>delete_genre\<close> and swallows its own errors. When the rewrite succeeds and the DELETE
  then fails, the file keeps the rewritten media row next to the genre that was not
  deleted; when the rewrite fails and the DELETE succeeds, the file keeps a media row
  that names a genre which is gone.
\<close>

theorem delete_genre_not_atomic:
  "committed (delete_genre [VInt 1, VText ''Action'', VText '''', VText '''']
      ((connect example_db)\<lparr>faults := [False, True]\<rparr>))
   = [TMedia \<mapsto>
        [[VInt 1, VText ''Dune'', VText '''', VText ''PG'', VText ''-DELETED GENRE-'', VInt 0,
          VInt 1, VText ''Blu-ray'', VInt 155, VText '''']],
      TGenres \<mapsto> [[VInt 1, VText ''Action'', VText '''', VText '''']],
      TMediaTypes \<mapsto> [[VInt 1, VText ''Blu-ray'']]]
   \<and> errlog (delete_genre [VInt 1, VText ''Action'', VText '''', VText '''']
      ((connect example_db)\<lparr>faults := [False, True]\<rparr>)) = [OperationalError]
   \<and> committed (delete_genre [VInt 1, VText ''Action'', VText '''', VText '''']
      ((connect example_db)\<lparr>faults := [True]\<rparr>))
   = [TMedia \<mapsto>
        [[VInt 1, VText ''Dune'', VText '''', VText ''PG'', VText ''Action'', VInt 0,
          VInt 1, VText ''Blu-ray'', VInt 155, VText '''']],
      TGenres \<mapsto> [],
      TMediaTypes \<mapsto> [[VInt 1, VText ''Blu-ray'']]]"
  by (simp add: delete_genre_def convert_entries_def py_index_def log_exception_def
        with_connection_def and_then_def execute_write_def engine_tick_def engine_fails_def
        commit_def rollback_def Let_def sql_delete_def sql_update_def col_index_def columns_defs
        sql_eq_def connect_def example_db_def cell_def col_not_null_def fun_eq_iff all_tables)

subsection \<open>Updating a row that does not exist\<close>



subsection \<open>An empty title is stored\<close>



subsection \<open>Adding and finding again\<close>



subsection \<open>Searching without a column\<close>

text \<open>
  C3, as the code has it. On a working store, for a query that holds neither \<^verbatim>\<open>%\<close> nor
  \<^verbatim>\<open>_\<close> nor a NUL character and that takes at most 49998 bytes of UTF-8, and for a
  page size that fits into a C int, a search without column yields exactly the media
  rows, in storage order, of which the title, the description, the genre or the notes,
  read up to their first NUL character, contain the query as a run of consecutive
  characters, the letters A to Z compared without regard to case.
\<close>

theorem search_any_column:
  assumes "faults c = []" and "pending c TMedia = Some rs"
    and "CHR ''%'' \<notin> set query" and "CHR ''_'' \<notin> set query" and "CHR 0x00 \<notin> set query"
    and "utf8_length query \<le> 49998"
    and "c_int count"
  shows "concat (fst (search query None count c)) =
           filter (\<lambda>r. contains_ci query (before_nul (cell r 1))
                     \<or> contains_ci query (before_nul (cell r 2))
                     \<or> contains_ci query (before_nul (cell r 4))
                     \<or> contains_ci query (before_nul (cell r 9))) rs"
proof -
  have st: "sql_select_like TMedia [ColTitle, ColDescription, ColGenre, ColNotes]
              (''%'' @ query @ ''%'') (pending c)
        = Inr (filter (\<lambda>r. contains_ci query (before_nul (cell r 1))
                     \<or> contains_ci query (before_nul (cell r 2))
                     \<or> contains_ci query (before_nul (cell r 4))
                     \<or> contains_ci query (before_nul (cell r 9))) rs)"
    using assms(2,6) like_val_infix[OF assms(3,4,5)]
    by (simp add: sql_select_like_def col_index_media utf8_length_pattern)
  show ?thesis
    using stream_idle(1)[of c "sql_select_like TMedia [ColTitle, ColDescription, ColGenre, ColNotes]
              (''%'' @ query @ ''%'')", OF assms(1) st assms(7)]
    by (simp add: search_def)
qed

theorem search_any_column_witness:
  "concat (fst (search ''dune'' None 1000 (connect example_db)))
     = [[VInt 1, VText ''Dune'', VText '''', VText ''PG'', VText ''Action'', VInt 0, VInt 1,
         VText ''Blu-ray'', VInt 155, VText '''']]"
proof -
  have e: "filter (\<lambda>r. contains_ci ''dune'' (before_nul (cell r 1))
                     \<or> contains_ci ''dune'' (before_nul (cell r 2))
                     \<or> contains_ci ''dune'' (before_nul (cell r 4))
                     \<or> contains_ci ''dune'' (before_nul (cell r 9)))
             [[VInt 1, VText ''Dune'', VText '''', VText ''PG'', VText ''Action'', VInt 0, VInt 1,
               VText ''Blu-ray'', VInt 155, VText '''']]
           = [[VInt 1, VText ''Dune'', VText '''', VText ''PG'', VText ''Action'', VInt 0, VInt 1,
               VText ''Blu-ray'', VInt 155, VText '''']]"
    by code_simp
  have h: "utf8_length ''dune'' \<le> 49998" "c_int 1000"
    by (simp_all add: utf8_length_def c_int_def)
  show ?thesis
    using search_any_column[of "connect example_db"
      "[[VInt 1, VText ''Dune'', VText '''', VText ''PG'', VText ''Action'', VInt 0, VInt 1,
         VText ''Blu-ray'', VInt 155, VText '''']]" "''dune''" 1000] h
    unfolding e by (simp add: connect_def example_db_def)
qed

text \<open>
  The claim as it is written fails in each of these runs. The query \<^verbatim>\<open>a_c\<close> finds the
  title \<^verbatim>\<open>abc\<close>, which does not contain it, for \<^verbatim>\<open>_\<close> is a wildcard of LIKE. The query
  that is one NUL character finds the same title: the pattern ends at the NUL and is
  \<^verbatim>\<open>%\<close>. The query \<^verbatim>\<open>cd\<close> does not find the title \<^verbatim>\<open>ab\<close>, NUL, \<^verbatim>\<open>cd\<close>, which is read
  up to the NUL. A query of 49999 characters makes a pattern of 50001 bytes, which the
  engine refuses: the title that is the query itself is not found. A page size of
  \<open>2 ^ 31\<close> makes \<^verbatim>\<open>fetchmany\<close> raise: nothing is found. The query that is the small
  letter e with acute (233) does not find the title that is its capital (201).
\<close>

theorem search_counterexample:
  "concat (fst (search ''a_c'' None 1000 (connect (one_title_db ''abc''))))
     = [[VInt 1, VText ''abc'', VText '''', VText '''', VText '''', VInt 0, VInt 1,
         VText '''', VInt 0, VText '''']]
   \<and> \<not> contains_ci ''a_c'' (VText ''abc'') \<and> \<not> contains_ci ''a_c'' (VText '''')
   \<and> concat (fst (search [CHR 0x00] None 1000 (connect (one_title_db ''abc''))))
     = [[VInt 1, VText ''abc'', VText '''', VText '''', VText '''', VInt 0, VInt 1,
         VText '''', VInt 0, VText '''']]
   \<and> \<not> contains_ci [CHR 0x00] (VText ''abc'') \<and> \<not> contains_ci [CHR 0x00] (VText '''')
   \<and> concat (fst (search ''cd'' None 1000
         (connect (one_title_db (''ab'' @ [CHR 0x00] @ ''cd''))))) = []
   \<and> contains_ci ''cd'' (VText (''ab'' @ [CHR 0x00] @ ''cd''))
   \<and> concat (fst (search (replicate 49999 (CHR ''a'')) None 1000
         (connect (one_title_db (replicate 49999 (CHR ''a'')))))) = []
   \<and> contains_ci (replicate 49999 (CHR ''a'')) (VText (replicate 49999 (CHR ''a'')))
   \<and> concat (fst (search ''abc'' None 2147483648 (connect (one_title_db ''abc'')))) = []
   \<and> contains_ci ''abc'' (VText ''abc'')
   \<and> concat (fst (search [CHR 0xE9] None 1000 (connect (one_title_db [CHR 0xC9])))) = []
   \<and> sublist (map latin1_lower [CHR 0xE9]) (map latin1_lower [CHR 0xC9])"
proof -
  have wildcard:
    "concat (fst (search ''a_c'' None 1000 (connect (one_title_db ''abc''))))
       = [[VInt 1, VText ''abc'', VText '''', VText '''', VText '''', VInt 0, VInt 1,
           VText '''', VInt 0, VText '''']]
     \<and> \<not> contains_ci ''a_c'' (VText ''abc'') \<and> \<not> contains_ci ''a_c'' (VText '''')"
    by code_simp
  have nul_query:
    "concat (fst (search [CHR 0x00] None 1000 (connect (one_title_db ''abc''))))
       = [[VInt 1, VText ''abc'', VText '''', VText '''', VText '''', VInt 0, VInt 1,
           VText '''', VInt 0, VText '''']]
     \<and> \<not> contains_ci [CHR 0x00] (VText ''abc'') \<and> \<not> contains_ci [CHR 0x00] (VText '''')"
    by code_simp
  have nul_title:
    "concat (fst (search ''cd'' None 1000
        (connect (one_title_db (''ab'' @ [CHR 0x00] @ ''cd''))))) = []
     \<and> contains_ci ''cd'' (VText (''ab'' @ [CHR 0x00] @ ''cd''))"
    by code_simp
  have l: "50000 < utf8_length (''%'' @ replicate 49999 (CHR ''a'') @ ''%'')"
    by (simp add: utf8_length_def)
  have "sql_select_like TMedia [ColTitle, ColDescription, ColGenre, ColNotes]
          (''%'' @ replicate 49999 (CHR ''a'') @ ''%'')
          (one_title_db (replicate 49999 (CHR ''a''))) = Inl OperationalError"
    using l by (simp add: sql_select_like_def one_title_db_def col_index_media)
  then have "fst (search (replicate 49999 (CHR ''a'')) None 1000
      (connect (one_title_db (replicate 49999 (CHR ''a''))))) = []"
    by (simp add: search_def stream_def execute_read_def engine_tick_def engine_fails_def
        connect_def Let_def)
  then have long_query:
    "concat (fst (search (replicate 49999 (CHR ''a'')) None 1000
        (connect (one_title_db (replicate 49999 (CHR ''a'')))))) = []
     \<and> contains_ci (replicate 49999 (CHR ''a'')) (VText (replicate 49999 (CHR ''a'')))"
    by (simp add: contains_ci_def)
  have page_size:
    "concat (fst (search ''abc'' None 2147483648 (connect (one_title_db ''abc'')))) = []
     \<and> contains_ci ''abc'' (VText ''abc'')"
    by code_simp
  have accent:
    "concat (fst (search [CHR 0xE9] None 1000 (connect (one_title_db [CHR 0xC9])))) = []
     \<and> sublist (map latin1_lower [CHR 0xE9]) (map latin1_lower [CHR 0xC9])"
    by code_simp
  show ?thesis
    using wildcard nul_query nul_title long_query page_size accent by blast
qed

subsection \<open>Listing a column\<close>




subsection \<open>Creating the tables\<close>




subsection \<open>Filtering by a spliced value\<close>

text \<open>
  C8. \<^verbatim>\<open>filter_entries\<close> splices the value between quotes where its siblings bind it.
  For the title \<^verbatim>\<open>O'Brien\<close> the quote inside the value ends the literal early: the
  statement fails, the error is logged and nothing is yielded, although the row is
  there and \<^verbatim>\<open>select_one_entry\<close> finds it.
\<close>

theorem filter_entries_quote:
  "fst (filter_entries TMedia ColTitle (''O'' @ [CHR 0x27] @ ''Brien'') 1000
      (connect quote_db)) = []
   \<and> errlog (snd (filter_entries TMedia ColTitle (''O'' @ [CHR 0x27] @ ''Brien'') 1000
      (connect quote_db))) = [OperationalError]
   \<and> fst (select_one_entry TMedia ColTitle (VText (''O'' @ [CHR 0x27] @ ''Brien''))
      (connect quote_db))
     = Some [VInt 1, VText (''O'' @ [CHR 0x27] @ ''Brien''), VText '''', VText ''PG'',
             VText ''Drama'', VInt 0, VInt 1, VText ''DVD'', VInt 90, VText '''']"
  by code_simp

end
